theory Spec2Isabelle
  imports Complex_Main
begin

section \<open>dalladalla.dallacrowd: bus stop estimation from crowd data\<close>

text \<open>
  A shallow embedding of \<^verbatim>\<open>src/dalladalla/dallacrowd.py\<close>. Floating point numbers are
  modelled as \<^typ>\<open>real\<close> (no rounding, no NaN, no infinities), a one-dimensional numpy
  array as a list and a two-dimensional one as the list of its rows. A method of
  \<^verbatim>\<open>Estimator\<close> takes the object's state and returns its outcome (an exception as
  \<open>Inl\<close>) together with the state it leaves behind, since a setter that raises half-way has
  already assigned some attributes.
\<close>

subsection \<open>Data model\<close>

datatype error = AttributeError | ValueError | TypeError | IndexError | InvalidInputError

type_synonym point = "real \<times> real"

type_synonym array2 = "real list list"

text \<open>
  The attributes of an \<^verbatim>\<open>Estimator\<close>. \<^verbatim>\<open>_points\<close>, \<^verbatim>\<open>__p_coordinates\<close> and
  \<^verbatim>\<open>__boundaries\<close> do not exist before the points setter has assigned them: \<open>None\<close> is
  the missing attribute. For \<^verbatim>\<open>_stop_prob\<close> and \<^verbatim>\<open>_weights\<close>, \<open>None\<close> is Python's
  \<^verbatim>\<open>None\<close>. The geometries of the input series are points, each an \<open>(x, y)\<close> pair.
\<close>

record estimator =
  stop_prob :: "array2 option"
  points :: "point list option"
  p_coordinates :: "array2 option"
  boundaries :: "real list option"
  weights :: "real list option"

definition blank :: estimator where
  "blank = \<lparr>stop_prob = None, points = None, p_coordinates = None,
            boundaries = None, weights = None\<rparr>"

subsection \<open>numpy and scipy primitives\<close>

text \<open>\<^verbatim>\<open>a.min()\<close> and \<^verbatim>\<open>a.max()\<close> of a non-empty one-dimensional array.\<close>

definition amin :: "real list \<Rightarrow> real" where
  "amin xs = fold min (tl xs) (hd xs)"

definition amax :: "real list \<Rightarrow> real" where
  "amax xs = fold max (tl xs) (hd xs)"

text \<open>
  \<^verbatim>\<open>np.linspace(start, stop, num)\<close> with the default \<^verbatim>\<open>endpoint=True\<close>: a negative
  \<^verbatim>\<open>num\<close> raises \<^verbatim>\<open>ValueError\<close>, one sample is \<^verbatim>\<open>start\<close>, and otherwise the samples
  are \<^verbatim>\<open>start + i * step\<close> with the last one set to \<^verbatim>\<open>stop\<close>.
\<close>

definition linspace :: "real \<Rightarrow> real \<Rightarrow> int \<Rightarrow> error + real list" where
  "linspace start stop num =
     (if num < 0 then Inl ValueError
      else if num = 0 then Inr []
      else if num = 1 then Inr [start]
      else Inr (map (\<lambda>i. start + real i * ((stop - start) / real_of_int (num - 1)))
                  [0..<nat num - 1] @ [stop]))"

text \<open>\<^verbatim>\<open>np.meshgrid(x, y)\<close>: both results have \<open>len(y)\<close> rows and \<open>len(x)\<close> columns.\<close>

definition meshgrid :: "real list \<Rightarrow> real list \<Rightarrow> array2 \<times> array2" where
  "meshgrid x y = (replicate (length y) x, map (\<lambda>v. replicate (length x) v) y)"

text \<open>
  \<^verbatim>\<open>not a\<close> for \<^verbatim>\<open>a = self._stop_prob\<close>: \<^verbatim>\<open>None\<close> counts as false, so its negation
  holds; an array with more than one element has no truth value and raises
  \<^verbatim>\<open>ValueError\<close>; an array with one element is as true as that element is non-zero; an
  empty array counts as false (numpy deprecated this and its latest versions raise; no
  theorem below depends on the empty case).
\<close>

definition py_not :: "array2 option \<Rightarrow> error + bool" where
  "py_not a =
     (case a of
        None \<Rightarrow> Inr True
      | Some g \<Rightarrow>
          (case concat g of
             [] \<Rightarrow> Inr True
           | [v] \<Rightarrow> Inr (v = 0)
           | _ \<Rightarrow> Inl ValueError))"

text \<open>\<^verbatim>\<open>a.take(i, mode='clip')\<close>: an index outside the array is moved to its nearest end.\<close>

definition clip_take :: "'a list \<Rightarrow> int \<Rightarrow> 'a" where
  "clip_take xs i = xs ! nat (max 0 (min i (int (length xs) - 1)))"

text \<open>
  scipy's \<^verbatim>\<open>_boolrelextrema(data, np.greater, axis, order=1, mode='clip')\<close>, which
  \<^verbatim>\<open>argrelmax\<close> calls: a cell is marked when it is greater than the cell one step further
  and the cell one step back along the axis, both taken with \<^verbatim>\<open>mode='clip'\<close>.
\<close>

definition boolrelextrema0 :: "array2 \<Rightarrow> bool list list" where
  "boolrelextrema0 data =
     map (\<lambda>i. map (\<lambda>j. data ! i ! j > clip_take data (int i + 1) ! j
                      \<and> data ! i ! j > clip_take data (int i - 1) ! j)
                [0..<length (data ! i)])
         [0..<length data]"

definition boolrelextrema1 :: "array2 \<Rightarrow> bool list list" where
  "boolrelextrema1 data =
     map (\<lambda>i. map (\<lambda>j. data ! i ! j > clip_take (data ! i) (int j + 1)
                      \<and> data ! i ! j > clip_take (data ! i) (int j - 1))
                [0..<length (data ! i)])
         [0..<length data]"

text \<open>The true cells of a boolean array in row-major order, each as (row, column).\<close>

definition mask_cells :: "bool list list \<Rightarrow> (nat \<times> nat) list" where
  "mask_cells b =
     concat (map (\<lambda>i. map (\<lambda>j. (i, j)) (filter (\<lambda>j. b ! i ! j) [0..<length (b ! i)]))
                 [0..<length b])"

text \<open>\<^verbatim>\<open>np.nonzero\<close> of a boolean array: the indices of the true cells in row-major order,
  as the pair of the row indices and the column indices.\<close>

definition nonzero :: "bool list list \<Rightarrow> nat list \<times> nat list" where
  "nonzero b = (let cells = mask_cells b in (map fst cells, map snd cells))"

definition argrelmax :: "array2 \<Rightarrow> nat \<Rightarrow> nat list \<times> nat list" where
  "argrelmax data axis = nonzero (if axis = 0 then boolrelextrema0 data else boolrelextrema1 data)"

definition zeros_like :: "array2 \<Rightarrow> array2" where
  "zeros_like a = map (map (\<lambda>_. 0)) a"

text \<open>\<^verbatim>\<open>a[rows, cols] = v\<close> with two index arrays of the same length.\<close>

definition set_cells :: "array2 \<Rightarrow> nat list \<times> nat list \<Rightarrow> real \<Rightarrow> array2" where
  "set_cells a idx v = fold (\<lambda>(i, j) g. g[i := (g ! i)[j := v]]) (zip (fst idx) (snd idx)) a"

definition array_add :: "array2 \<Rightarrow> array2 \<Rightarrow> array2" where
  "array_add a b = map2 (map2 (+)) a b"

definition array_eq :: "array2 \<Rightarrow> real \<Rightarrow> bool list list" where
  "array_eq a v = map (map (\<lambda>c. c = v)) a"

text \<open>
  \<^verbatim>\<open>a[mask]\<close> with a boolean mask: the cells of \<open>a\<close> where the mask is true, in row-major
  order; a mask of another shape raises \<^verbatim>\<open>IndexError\<close>.
\<close>

definition boolean_index :: "array2 \<Rightarrow> bool list list \<Rightarrow> error + real list" where
  "boolean_index a m =
     (if map length a \<noteq> map length m then Inl IndexError
      else Inr (concat (map2 (\<lambda>r mr. map fst (filter snd (zip r mr))) a m)))"

subsection \<open>The density model\<close>

text \<open>
  Modelled from the spec: \<^verbatim>\<open>dalladalla.weightedkde.gaussian_kde\<close>, whose module is not
  among the sources, on the \<open>(2, N)\<close> coordinate array. The spec's DensityModel takes a
  PointSet shaped \<open>(2, N)\<close>, an optional WeightVector of length \<open>N\<close> and a bandwidth; it
  fails with \<^verbatim>\<open>InvalidInputError\<close> if \<open>N < 2\<close>, if the length of a supplied WeightVector
  is not \<open>N\<close>, if a weight is negative or if the weights sum to zero; omitted weights are
  weight 1 for every point; each point contributes mass proportional to its weight; the
  fitted model gives a density for each query point. The kernel is the parameter \<open>kern\<close>,
  applied to the bandwidth, a data point and the query point.
\<close>

definition gaussian_kde ::
  "(real \<Rightarrow> point \<Rightarrow> point \<Rightarrow> real) \<Rightarrow> array2 \<Rightarrow> real list option \<Rightarrow> real
     \<Rightarrow> error + (point \<Rightarrow> real)" where
  "gaussian_kde kern dataset ws bw_method =
     (case dataset of
        [xs, ys] \<Rightarrow>
          (let n = length xs;
               w = (case ws of None \<Rightarrow> replicate n 1 | Some v \<Rightarrow> v)
           in if length ys \<noteq> n \<or> n < 2 \<or> length w \<noteq> n \<or> list_ex (\<lambda>v. v < 0) w
                 \<or> sum_list w = 0
              then Inl InvalidInputError
              else Inr (\<lambda>q. sum_list (map2 (\<lambda>p v. v * kern bw_method p q) (zip xs ys) w)
                             / sum_list w))
      | _ \<Rightarrow> Inl InvalidInputError)"

subsection \<open>The road-snapping lookup\<close>

text \<open>
  \<^verbatim>\<open>nearest_street\<close> returns the \<^verbatim>\<open>mapped_coordinate\<close> of the routing service's answer
  or, when anything in its \<^verbatim>\<open>try\<close> block raises, the integer 0. The service is the
  parameter \<open>osrm\<close>: \<open>None\<close> when the request, the decoding or the field lookup raises,
  and the pair of the answer otherwise.
\<close>

datatype snapped = Sentinel | Mapped real real

definition nearest_street :: "(real \<Rightarrow> real \<Rightarrow> (real \<times> real) option) \<Rightarrow> real list \<Rightarrow> snapped" where
  "nearest_street osrm coordinates =
     (case osrm (coordinates ! 0) (coordinates ! 1) of
        Some (a, b) \<Rightarrow> Mapped a b
      | None \<Rightarrow> Sentinel)"

text \<open>A numpy array of one or of two dimensions, and the nested list \<^verbatim>\<open>tolist\<close> makes of it.\<close>

datatype ndarray = Array1 "real list" | Array2 array2

text \<open>
  \<^verbatim>\<open>np.apply_along_axis(nearest_street, 1, rows)\<close>: no row raises \<^verbatim>\<open>ValueError\<close>; the
  result of the first row fixes the shape of the output (one number per row after a
  sentinel, one pair per row after a mapped coordinate); a later sentinel is broadcast into
  its pair, a later pair cannot be stored where a number is expected and raises
  \<^verbatim>\<open>ValueError\<close>.
\<close>

definition apply_along_axis ::
  "(real \<Rightarrow> real \<Rightarrow> (real \<times> real) option) \<Rightarrow> array2 \<Rightarrow> error + ndarray" where
  "apply_along_axis osrm rows =
     (case rows of
        [] \<Rightarrow> Inl ValueError
      | r0 # rest \<Rightarrow>
          (case nearest_street osrm r0 of
             Sentinel \<Rightarrow>
               (if list_all (\<lambda>r. nearest_street osrm r = Sentinel) rest
                then Inr (Array1 (map (\<lambda>_. 0) rows))
                else Inl ValueError)
           | Mapped a b \<Rightarrow>
               Inr (Array2 (map (\<lambda>r. case nearest_street osrm r of
                                        Sentinel \<Rightarrow> [0, 0]
                                      | Mapped c d \<Rightarrow> [c, d]) rows))))"

text \<open>\<^verbatim>\<open>a.T\<close> of the \<open>(2, K)\<close> array of candidates and of the result of the lookups.\<close>

definition transpose2 :: "ndarray \<Rightarrow> ndarray" where
  "transpose2 a =
     (case a of
        Array1 v \<Rightarrow> Array1 v
      | Array2 rs \<Rightarrow>
          (case rs of
             [] \<Rightarrow> Array2 []
           | r # _ \<Rightarrow> Array2 (map (\<lambda>k. map (\<lambda>row. row ! k) rs) [0..<length r])))"

text \<open>
  \<^verbatim>\<open>list(zip(point_list[1], point_list[0]))\<close>: indexing a list shorter than two raises
  \<^verbatim>\<open>IndexError\<close>, and \<^verbatim>\<open>zip\<close> of two numbers raises \<^verbatim>\<open>TypeError\<close>.
\<close>

definition zip_swapped :: "ndarray \<Rightarrow> error + (real \<times> real) list" where
  "zip_swapped point_list =
     (case point_list of
        Array1 v \<Rightarrow> (if length v < 2 then Inl IndexError else Inl TypeError)
      | Array2 rs \<Rightarrow> (if length rs < 2 then Inl IndexError else Inr (zip (rs ! 1) (rs ! 0))))"

subsection \<open>The Estimator\<close>

text \<open>Reading an attribute that no assignment has created raises \<^verbatim>\<open>AttributeError\<close>.\<close>

definition attr :: "'a option \<Rightarrow> error + 'a" where
  "attr a = (case a of None \<Rightarrow> Inl AttributeError | Some v \<Rightarrow> Inr v)"

text \<open>
  The setter of \<^verbatim>\<open>points\<close>. \<^verbatim>\<open>None\<close> has no \<^verbatim>\<open>geometry\<close> and raises before anything is
  assigned. Otherwise the coordinates and the points are assigned first; the minimum of an
  empty row then raises \<^verbatim>\<open>ValueError\<close>, before the boundaries and the cache are touched.
  The boundaries are the flattened \<open>[[xmin, ymin], [xmax, ymax]]\<close> read at 0, 2, 1, 3.
\<close>

definition points_setter :: "point list option \<Rightarrow> estimator \<Rightarrow> (error + unit) \<times> estimator" where
  "points_setter v s =
     (case v of
        None \<Rightarrow> (Inl AttributeError, s)
      | Some ps \<Rightarrow>
          (let c = [map fst ps, map snd ps];
               s1 = s\<lparr>p_coordinates := Some c, points := Some ps\<rparr>
           in if ps = [] then (Inl ValueError, s1)
              else (let flat = concat [map amin c, map amax c]
                    in (Inr (), s1\<lparr>boundaries := Some (map (\<lambda>k. flat ! k) [0, 2, 1, 3]),
                                   stop_prob := None\<rparr>))))"

definition weights_setter :: "real list option \<Rightarrow> estimator \<Rightarrow> estimator" where
  "weights_setter v s = s\<lparr>weights := v, stop_prob := None\<rparr>"

text \<open>\<^verbatim>\<open>Estimator(input_points, weights)\<close>: an exception of the points setter leaves no
  instance.\<close>

definition init :: "point list option \<Rightarrow> real list option \<Rightarrow> error + estimator" where
  "init input_points w =
     (case points_setter input_points (blank\<lparr>stop_prob := None\<rparr>) of
        (Inl e, _) \<Rightarrow> Inl e
      | (Inr _, s) \<Rightarrow> Inr (weights_setter w s))"

text \<open>
  The fit of lines 80 to 83. The weighted branch passes the coordinate array
  \<^verbatim>\<open>self.__p_coordinates\<close> and the weights. The other branch passes \<^verbatim>\<open>self.points\<close>,
  the series of geometries itself, and no weights; neither the sources nor the spec say
  what \<^verbatim>\<open>gaussian_kde\<close> makes of a series of geometries, so that is the parameter
  \<open>series_fit\<close>, applied to the points and the bandwidth.
\<close>

definition fit ::
  "(real \<Rightarrow> point \<Rightarrow> point \<Rightarrow> real) \<Rightarrow> (point list \<Rightarrow> real \<Rightarrow> error + (point \<Rightarrow> real))
     \<Rightarrow> bool \<Rightarrow> real \<Rightarrow> estimator \<Rightarrow> error + (point \<Rightarrow> real)" where
  "fit kern series_fit weighted kernel_width s =
     (if weighted
      then (case attr (p_coordinates s) of
              Inl e \<Rightarrow> Inl e
            | Inr c \<Rightarrow> gaussian_kde kern c (weights s) kernel_width)
      else (case attr (points s) of
              Inl e \<Rightarrow> Inl e
            | Inr ps \<Rightarrow> series_fit ps kernel_width))"

text \<open>Lines 78 to 86: the density surface is evaluated on the grid and stored when
  \<^verbatim>\<open>not self._stop_prob\<close> holds.\<close>

definition fill_stop_prob ::
  "(real \<Rightarrow> point \<Rightarrow> point \<Rightarrow> real) \<Rightarrow> (point list \<Rightarrow> real \<Rightarrow> error + (point \<Rightarrow> real))
     \<Rightarrow> bool \<Rightarrow> real \<Rightarrow> array2 \<Rightarrow> array2 \<Rightarrow> estimator
     \<Rightarrow> (error + unit) \<times> estimator" where
  "fill_stop_prob kern series_fit weighted kernel_width xx yy s =
     (case py_not (stop_prob s) of
        Inl e \<Rightarrow> (Inl e, s)
      | Inr False \<Rightarrow> (Inr (), s)
      | Inr True \<Rightarrow>
          (case fit kern series_fit weighted kernel_width s of
             Inl e \<Rightarrow> (Inl e, s)
           | Inr pdf \<Rightarrow>
               (Inr (), s\<lparr>stop_prob := Some (map2 (map2 (\<lambda>a b. pdf (a, b))) xx yy)\<rparr>)))"

text \<open>Lines 87 to 93: the grid that holds 2 where a cell is a maximum along both axes.\<close>

definition maxima_sum :: "array2 \<Rightarrow> array2" where
  "maxima_sum g =
     (let maxima_x = argrelmax g 1;
          maxima_y = argrelmax g 0;
          out_x = set_cells (zeros_like g) maxima_x 1;
          out_y = set_cells (zeros_like g) maxima_y 1
      in array_add out_x out_y)"

text \<open>The cells that the mask \<^verbatim>\<open>out == 2\<close> of line 94 selects, in row-major order.\<close>

definition candidate_cells :: "array2 \<Rightarrow> (nat \<times> nat) list" where
  "candidate_cells g = mask_cells (array_eq (maxima_sum g) 2)"

text \<open>Line 94: the \<open>(2, K)\<close> array of the x and of the y coordinates of those cells.\<close>

definition select_stop_points :: "array2 \<Rightarrow> array2 \<Rightarrow> array2 \<Rightarrow> error + ndarray" where
  "select_stop_points g xx yy =
     (let out = maxima_sum g
      in case boolean_index xx (array_eq out 2) of
           Inl e \<Rightarrow> Inl e
         | Inr sx \<Rightarrow>
             (case boolean_index yy (array_eq out 2) of
                Inl e \<Rightarrow> Inl e
              | Inr sy \<Rightarrow> Inr (Array2 [sx, sy])))"

text \<open>Lines 95 to 98.\<close>

definition finish_stops ::
  "(real \<Rightarrow> real \<Rightarrow> (real \<times> real) option) \<Rightarrow> bool \<Rightarrow> ndarray \<Rightarrow> error + (real \<times> real) list" where
  "finish_stops osrm snap_to_street stop_points =
     (if snap_to_street
      then (case transpose2 stop_points of
              Array1 v \<Rightarrow> Inl ValueError
            | Array2 rows \<Rightarrow>
                (case apply_along_axis osrm rows of
                   Inl e \<Rightarrow> Inl e
                 | Inr a \<Rightarrow> zip_swapped (transpose2 a)))
      else zip_swapped stop_points)"

definition estimate_stops ::
  "(real \<Rightarrow> point \<Rightarrow> point \<Rightarrow> real) \<Rightarrow> (point list \<Rightarrow> real \<Rightarrow> error + (point \<Rightarrow> real))
     \<Rightarrow> (real \<Rightarrow> real \<Rightarrow> (real \<times> real) option)
     \<Rightarrow> bool \<Rightarrow> bool \<Rightarrow> int \<Rightarrow> real \<Rightarrow> estimator
     \<Rightarrow> (error + (real \<times> real) list) \<times> estimator" where
  "estimate_stops kern series_fit osrm weighted snap_to_street resolution kernel_width s =
     (case attr (boundaries s) of
        Inl e \<Rightarrow> (Inl e, s)
      | Inr b \<Rightarrow>
          (case linspace (b ! 0) (b ! 1) resolution of
             Inl e \<Rightarrow> (Inl e, s)
           | Inr x \<Rightarrow>
               (case linspace (b ! 2) (b ! 3) resolution of
                  Inl e \<Rightarrow> (Inl e, s)
                | Inr y \<Rightarrow>
                    (let (xx, yy) = meshgrid x y
                     in case fill_stop_prob kern series_fit weighted kernel_width xx yy s of
                          (Inl e, s') \<Rightarrow> (Inl e, s')
                        | (Inr _, s') \<Rightarrow>
                            (case attr (stop_prob s') of
                               Inl e \<Rightarrow> (Inl e, s')
                             | Inr g \<Rightarrow>
                                 (case select_stop_points g xx yy of
                                    Inl e \<Rightarrow> (Inl e, s')
                                  | Inr stop_points \<Rightarrow>
                                      (finish_stops osrm snap_to_street stop_points, s')))))))"

text \<open>
  \<^verbatim>\<open>route_dist\<close>: the loop over \<^verbatim>\<open>self.points\<close>, appending the least distance to a route;
  Python's \<^verbatim>\<open>min\<close> of an empty list raises \<^verbatim>\<open>ValueError\<close>. The distance of a point to a
  route geometry is the parameter \<open>distance\<close>.
\<close>

fun route_loop :: "(point \<Rightarrow> 'r \<Rightarrow> real) \<Rightarrow> 'r list \<Rightarrow> point list \<Rightarrow> real list \<Rightarrow> error + real list" where
  "route_loop distance routes [] min_dist = Inr min_dist"
| "route_loop distance routes (p # ps) min_dist =
     (if routes = [] then Inl ValueError
      else route_loop distance routes ps (min_dist @ [amin (map (distance p) routes)]))"

definition route_dist :: "(point \<Rightarrow> 'r \<Rightarrow> real) \<Rightarrow> 'r list \<Rightarrow> estimator \<Rightarrow> error + real list" where
  "route_dist distance routes s =
     (case attr (points s) of
        Inl e \<Rightarrow> Inl e
      | Inr ps \<Rightarrow> route_loop distance routes ps [])"

subsection \<open>A worked example\<close>

text \<open>
  Three points, a kernel that is positive within distance \<open>sqrt bw\<close> of a data point, the
  estimator built from the points and the density surface of its 3 by 3 grid. The
  theorems below are run on them.
\<close>

definition tent :: "real \<Rightarrow> point \<Rightarrow> point \<Rightarrow> real" where
  "tent bw p q = max 0 (bw - ((fst q - fst p)\<^sup>2 + (snd q - snd p)\<^sup>2))"

definition three_points :: "point list" where
  "three_points = [(0, 0), (2, 4), (1, 2)]"

definition est3 :: estimator where
  "est3 = \<lparr>stop_prob = None, points = Some [(0, 0), (2, 4), (1, 2)],
            p_coordinates = Some [[0, 2, 1], [0, 4, 2]],
            boundaries = Some [0, 2, 0, 4], weights = None\<rparr>"

definition surface3 :: array2 where
  "surface3 = [[1/3, 0, 0], [0, 1/3, 0], [0, 0, 1/3]]"

text \<open>A fit that cannot take a series of geometries and raises \<^verbatim>\<open>TypeError\<close>.\<close>

definition no_series_fit :: "point list \<Rightarrow> real \<Rightarrow> error + (point \<Rightarrow> real)" where
  "no_series_fit ps bw = Inl TypeError"

text \<open>A routing service that answers every lookup, moving the point by \<open>(10, 20)\<close>.\<close>

definition shifting_osrm :: "real \<Rightarrow> real \<Rightarrow> (real \<times> real) option" where
  "shifting_osrm a b = Some (a + 10, b + 20)"

text \<open>The example estimator with its surface cached, after an empty series of points has
  been assigned to it.\<close>

definition est3_emptied :: estimator where
  "est3_emptied = \<lparr>stop_prob = Some surface3, points = Some [],
                    p_coordinates = Some [[], []],
                    boundaries = Some [0, 2, 0, 4], weights = None\<rparr>"

text \<open>The estimator after the single point \<open>(5, 6)\<close> has been assigned.\<close>

definition est1 :: estimator where
  "est1 = \<lparr>stop_prob = None, points = Some [(5, 6)], p_coordinates = Some [[5], [6]],
            boundaries = Some [5, 5, 6, 6], weights = None\<rparr>"

text \<open>A distance to test \<^verbatim>\<open>route_dist\<close> with: routes that are points, at their Manhattan distance.\<close>

definition manhattan :: "point \<Rightarrow> point \<Rightarrow> real" where
  "manhattan p r = \<bar>fst p - fst r\<bar> + \<bar>snd p - snd r\<bar>"

section \<open>Properties\<close>

subsection \<open>Minima, maxima and the sample grid\<close>

lemma amin_Min: "xs \<noteq> [] \<Longrightarrow> amin xs = Min (set xs)"
  by (cases xs) (simp_all add: amin_def Min.set_eq_fold[symmetric])

lemma amax_Max: "xs \<noteq> [] \<Longrightarrow> amax xs = Max (set xs)"
  by (cases xs) (simp_all add: amax_def Max.set_eq_fold[symmetric])

lemma linspace_length: "linspace a b n = Inr xs \<Longrightarrow> length xs = nat n"
  by (auto simp: linspace_def split: if_splits)

lemma linspace_step_bounds:
  fixes a b :: real
  assumes "a \<le> b" "i < k"
  shows "a \<le> a + real i * ((b - a) / real k)" "a + real i * ((b - a) / real k) \<le> b"
proof -
  have k: "0 < real k" using assms by simp
  have d: "0 \<le> (b - a) / real k" using assms k by simp
  have "0 \<le> real i * ((b - a) / real k)" using d by (intro mult_nonneg_nonneg) simp_all
  then show "a \<le> a + real i * ((b - a) / real k)" by linarith
  have "real i * ((b - a) / real k) \<le> real k * ((b - a) / real k)"
    using assms d by (intro mult_right_mono) simp_all
  also have "\<dots> = b - a" using k by simp
  finally show "a + real i * ((b - a) / real k) \<le> b" by linarith
qed

lemma linspace_bounds:
  assumes "linspace a b n = Inr xs" "a \<le> b" "v \<in> set xs"
  shows "a \<le> v \<and> v \<le> b"
proof (cases "n < 0 \<or> n = 0 \<or> n = 1")
  case True
  then show ?thesis using assms by (auto simp: linspace_def split: if_splits)
next
  case False
  then have n: "2 \<le> n" by arith
  then have xs: "xs = map (\<lambda>i. a + real i * ((b - a) / real (nat n - 1))) [0..<nat n - 1] @ [b]"
    using assms(1) False by (simp add: linspace_def of_nat_diff)
  show ?thesis
  proof (cases "v = b")
    case True
    then show ?thesis using assms(2) by simp
  next
    case False
    then obtain i where i: "i < nat n - 1" "v = a + real i * ((b - a) / real (nat n - 1))"
      using assms(3) xs by auto
    then show ?thesis using linspace_step_bounds[OF assms(2) i(1)] by simp
  qed
qed

lemma mem_mask_cells:
  "(i, j) \<in> set (mask_cells b) \<longleftrightarrow> i < length b \<and> j < length (b ! i) \<and> b ! i ! j"
  by (auto simp: mask_cells_def)

lemma select_row:
  "length r = length mr \<Longrightarrow>
     map fst (filter snd (zip r mr)) = map ((!) r) (filter ((!) mr) [0..<length mr])"
proof (induction r mr rule: list_induct2)
  case Nil
  then show ?case by simp
next
  case (Cons a r m mr)
  have "[0..<Suc (length mr)] = 0 # map Suc [0..<length mr]"
    by (simp only: upt_conv_Cons[OF zero_less_Suc] map_Suc_upt)
  then show ?case using Cons by (simp add: filter_map comp_def)
qed

lemma map2_nth:
  "length a = length m \<Longrightarrow> map2 f a m = map (\<lambda>i. f (a ! i) (m ! i)) [0..<length m]"
  by (rule nth_equalityI) simp_all

lemma boolean_index_cells:
  assumes "map length a = map length m"
  shows "boolean_index a m = Inr (map (\<lambda>(i, j). a ! i ! j) (mask_cells m))"
proof -
  have len: "length a = length m" using assms by (metis length_map)
  have row: "length (a ! i) = length (m ! i)" if "i < length m" for i
    using assms that len by (metis nth_map)
  have "concat (map2 (\<lambda>r mr. map fst (filter snd (zip r mr))) a m)
        = concat (map (\<lambda>i. map fst (filter snd (zip (a ! i) (m ! i)))) [0..<length m])"
    by (simp add: map2_nth[OF len])
  also have "\<dots> = concat (map (\<lambda>i. map ((!) (a ! i)) (filter ((!) (m ! i)) [0..<length (m ! i)]))
                            [0..<length m])"
    by (rule arg_cong[where f = concat], rule map_cong) (simp_all add: select_row row)
  also have "\<dots> = map (\<lambda>(i, j). a ! i ! j) (mask_cells m)"
    by (simp add: mask_cells_def map_concat comp_def)
  finally show ?thesis using assms by (simp add: boolean_index_def)
qed

lemma update_cell_shape: "map length (g[i := (g ! i)[j := v]]) = map length g"
  by (cases "i < length g") (simp_all add: map_update list_update_same_conv list_update_beyond)

lemma update_cell_nth:
  "i < length g \<Longrightarrow> j < length (g ! i) \<Longrightarrow>
     g[i0 := (g ! i0)[j0 := v]] ! i ! j = (if i = i0 \<and> j = j0 then v else g ! i ! j)"
  by (cases "i = i0") (simp_all add: nth_list_update)

lemma fold_cells_shape:
  "map length (fold (\<lambda>(i, j) g. g[i := (g ! i)[j := v]]) idx a) = map length a"
  by (induction idx arbitrary: a) (auto simp: update_cell_shape)

lemma fold_cells_nth:
  "i < length a \<Longrightarrow> j < length (a ! i) \<Longrightarrow>
     fold (\<lambda>(i, j) g. g[i := (g ! i)[j := v]]) idx a ! i ! j
       = (if (i, j) \<in> set idx then v else a ! i ! j)"
proof (induction idx arbitrary: a)
  case Nil
  then show ?case by simp
next
  case (Cons c idx)
  obtain i0 j0 where c: "c = (i0, j0)" by (cases c)
  let ?a = "a[i0 := (a ! i0)[j0 := v]]"
  have sh: "map length ?a = map length a" by (rule update_cell_shape)
  have l1: "i < length ?a" using Cons.prems by simp
  have l2: "j < length (?a ! i)" using Cons.prems sh by (metis length_map nth_map l1)
  show ?case
    using Cons.IH[OF l1 l2] update_cell_nth[OF Cons.prems, of i0 j0 v] by (auto simp: c)
qed

lemma set_cells_shape: "map length (set_cells a idx v) = map length a"
  by (simp add: set_cells_def fold_cells_shape)

lemma set_cells_nonzero_nth:
  assumes "map length b = map length a" "i < length a" "j < length (a ! i)"
  shows "set_cells (zeros_like a) (nonzero b) 1 ! i ! j = (if b ! i ! j then 1 else 0)"
proof -
  have z: "i < length (zeros_like a)" "j < length (zeros_like a ! i)" "zeros_like a ! i ! j = 0"
    using assms by (simp_all add: zeros_like_def)
  have lb: "i < length b" "j < length (b ! i)"
    using assms by (metis length_map, metis length_map nth_map)
  show ?thesis
    using fold_cells_nth[OF z(1,2), of 1 "mask_cells b"] lb
    by (simp add: set_cells_def nonzero_def Let_def zip_map_fst_snd mem_mask_cells z(3))
qed
lemma boolrelextrema0_shape: "map length (boolrelextrema0 g) = map length g"
  by (rule nth_equalityI) (simp_all add: boolrelextrema0_def)

lemma boolrelextrema1_shape: "map length (boolrelextrema1 g) = map length g"
  by (rule nth_equalityI) (simp_all add: boolrelextrema1_def)

lemma clip_take_up:
  assumes "i < length xs"
  shows "clip_take xs (int i + 1) = (if i + 1 < length xs then xs ! (i + 1) else xs ! i)"
proof -
  have h: "nat (max 0 (min (int i + 1) (int (length xs) - 1)))
             = (if i + 1 < length xs then i + 1 else i)"
    using assms by auto
  show ?thesis unfolding clip_take_def h by simp
qed

lemma clip_take_down:
  assumes "i < length xs"
  shows "clip_take xs (int i - 1) = xs ! (i - 1)"
proof -
  have h: "nat (max 0 (min (int i - 1) (int (length xs) - 1))) = i - 1"
    using assms by auto
  show ?thesis unfolding clip_take_def h by simp
qed

lemma boolrelextrema0_nth:
  assumes "i < length g" "j < length (g ! i)"
  shows "boolrelextrema0 g ! i ! j \<longleftrightarrow>
           0 < i \<and> i + 1 < length g \<and> g ! i ! j > g ! (i - 1) ! j \<and> g ! i ! j > g ! (i + 1) ! j"
proof -
  have "boolrelextrema0 g ! i ! j \<longleftrightarrow>
          g ! i ! j > clip_take g (int i + 1) ! j \<and> g ! i ! j > clip_take g (int i - 1) ! j"
    using assms by (simp add: boolrelextrema0_def)
  then show ?thesis
    unfolding clip_take_up[OF assms(1)] clip_take_down[OF assms(1)]
    by (cases "i = 0") auto
qed

lemma boolrelextrema1_nth:
  assumes "i < length g" "j < length (g ! i)"
  shows "boolrelextrema1 g ! i ! j \<longleftrightarrow>
           0 < j \<and> j + 1 < length (g ! i) \<and> g ! i ! j > g ! i ! (j - 1) \<and> g ! i ! j > g ! i ! (j + 1)"
proof -
  have "boolrelextrema1 g ! i ! j \<longleftrightarrow>
          g ! i ! j > clip_take (g ! i) (int j + 1) \<and> g ! i ! j > clip_take (g ! i) (int j - 1)"
    using assms by (simp add: boolrelextrema1_def)
  then show ?thesis
    unfolding clip_take_up[OF assms(2)] clip_take_down[OF assms(2)]
    by (cases "j = 0") auto
qed

lemma array_add_nth:
  assumes "map length a = map length b" "i < length a" "j < length (a ! i)"
  shows "array_add a b ! i ! j = a ! i ! j + b ! i ! j"
proof -
  have "i < length b" "j < length (b ! i)"
    using assms by (metis length_map, metis length_map nth_map)
  then show ?thesis using assms by (simp add: array_add_def)
qed

lemma array_add_shape:
  assumes "map length a = map length b"
  shows "map length (array_add a b) = map length a"
proof (rule nth_equalityI)
  have len: "length a = length b" using assms by (metis length_map)
  show "length (map length (array_add a b)) = length (map length a)"
    by (simp add: array_add_def len)
  fix i assume "i < length (map length (array_add a b))"
  then have i: "i < length a" "i < length b" by (simp_all add: array_add_def len)
  then have "length (a ! i) = length (b ! i)" using assms by (metis nth_map)
  then show "map length (array_add a b) ! i = map length a ! i"
    using i by (simp add: array_add_def)
qed

lemma maxima_sum_shape: "map length (maxima_sum g) = map length g"
proof -
  have "map length (set_cells (zeros_like g) (argrelmax g 1) 1)
        = map length (set_cells (zeros_like g) (argrelmax g 0) 1)"
    by (simp add: set_cells_shape)
  from array_add_shape[OF this] show ?thesis
    by (simp add: maxima_sum_def Let_def set_cells_shape zeros_like_def comp_def)
qed

lemma maxima_sum_nth:
  assumes "i < length g" "j < length (g ! i)"
  shows "maxima_sum g ! i ! j
           = (if boolrelextrema1 g ! i ! j then 1 else 0) + (if boolrelextrema0 g ! i ! j then 1 else 0)"
proof -
  let ?ox = "set_cells (zeros_like g) (argrelmax g 1) 1"
  let ?oy = "set_cells (zeros_like g) (argrelmax g 0) 1"
  have sh: "map length ?ox = map length ?oy" by (simp add: set_cells_shape)
  have shx: "map length ?ox = map length g"
    by (simp add: set_cells_shape zeros_like_def comp_def)
  have i: "i < length ?ox" using assms(1) shx by (metis length_map)
  have j: "j < length (?ox ! i)" using assms shx i by (metis nth_map)
  have "maxima_sum g ! i ! j = ?ox ! i ! j + ?oy ! i ! j"
    using array_add_nth[OF sh i j] by (simp add: maxima_sum_def Let_def)
  then show ?thesis
    using set_cells_nonzero_nth[OF boolrelextrema1_shape assms]
          set_cells_nonzero_nth[OF boolrelextrema0_shape assms]
    by (simp add: argrelmax_def)
qed

lemma mem_candidate_cells:
  "(i, j) \<in> set (candidate_cells g) \<longleftrightarrow>
     i < length g \<and> j < length (g ! i) \<and> boolrelextrema0 g ! i ! j \<and> boolrelextrema1 g ! i ! j"
proof -
  have len: "length (maxima_sum g) = length g"
    using maxima_sum_shape[of g] by (metis length_map)
  have row: "length (maxima_sum g ! i) = length (g ! i)" if "i < length g"
    using maxima_sum_shape[of g] that len by (metis nth_map)
  show ?thesis
    by (auto simp: candidate_cells_def mem_mask_cells array_eq_def len row maxima_sum_nth
             split: if_splits)
qed
lemma fill_stop_prob_frame:
  assumes "fill_stop_prob kern series_fit weighted bw xx yy s = (r, s')"
  shows "boundaries s' = boundaries s \<and> points s' = points s
           \<and> p_coordinates s' = p_coordinates s \<and> weights s' = weights s"
  using assms
  by (auto simp: fill_stop_prob_def split: sum.splits bool.splits)

lemma estimate_stops_Inr:
  assumes "estimate_stops kern series_fit osrm weighted snap resolution bw s = (Inr out, s')"
  shows "\<exists>b x y g sp. boundaries s = Some b
           \<and> linspace (b ! 0) (b ! 1) resolution = Inr x
           \<and> linspace (b ! 2) (b ! 3) resolution = Inr y
           \<and> fill_stop_prob kern series_fit weighted bw (fst (meshgrid x y)) (snd (meshgrid x y)) s = (Inr (), s')
           \<and> stop_prob s' = Some g
           \<and> select_stop_points g (fst (meshgrid x y)) (snd (meshgrid x y)) = Inr sp
           \<and> finish_stops osrm snap sp = Inr out"
  using assms
  by (auto simp: estimate_stops_def attr_def split: option.splits sum.splits prod.splits)

lemma boolean_index_Inr_shape: "boolean_index a m = Inr v \<Longrightarrow> map length a = map length m"
  by (simp add: boolean_index_def split: if_splits)

lemma select_stop_points_Inr:
  assumes "select_stop_points g (fst (meshgrid x y)) (snd (meshgrid x y)) = Inr sp"
  shows "map length g = replicate (length y) (length x)"
    and "sp = Array2 [map (\<lambda>(i, j). x ! j) (candidate_cells g),
                      map (\<lambda>(i, j). y ! i) (candidate_cells g)]"
proof -
  let ?m = "array_eq (maxima_sum g) 2"
  let ?xx = "fst (meshgrid x y)" and ?yy = "snd (meshgrid x y)"
  have msh: "map length ?m = map length g"
    using maxima_sum_shape[of g] by (simp add: array_eq_def comp_def)
  obtain sx sy where sx: "boolean_index ?xx ?m = Inr sx" and sy: "boolean_index ?yy ?m = Inr sy"
    and sp: "sp = Array2 [sx, sy]"
    using assms by (auto simp: select_stop_points_def Let_def split: sum.splits)
  have xsh: "map length ?xx = replicate (length y) (length x)"
    by (simp add: meshgrid_def map_replicate_const)
  have ysh: "map length ?yy = replicate (length y) (length x)"
    by (simp add: meshgrid_def comp_def map_replicate_const)
  show sh: "map length g = replicate (length y) (length x)"
    using boolean_index_Inr_shape[OF sx] msh xsh by simp
  then have len: "length g = length y" by (metis length_map length_replicate)
  have sx': "sx = map (\<lambda>(i, j). ?xx ! i ! j) (candidate_cells g)"
    using sx boolean_index_cells[of ?xx ?m] msh xsh sh by (simp add: candidate_cells_def)
  have sy': "sy = map (\<lambda>(i, j). ?yy ! i ! j) (candidate_cells g)"
    using sy boolean_index_cells[of ?yy ?m] msh ysh sh by (simp add: candidate_cells_def)
  have in_range: "i < length y \<and> j < length x" if "(i, j) \<in> set (candidate_cells g)" for i j
  proof -
    have i: "i < length g" and j: "j < length (g ! i)"
      using that by (simp_all add: mem_candidate_cells)
    have "length (g ! i) = length x" using sh i len by (metis nth_map nth_replicate)
    then show ?thesis using i j len by simp
  qed
  have "sx = map (\<lambda>(i, j). x ! j) (candidate_cells g)"
    unfolding sx' by (rule map_cong) (auto simp: meshgrid_def dest: in_range)
  moreover have "sy = map (\<lambda>(i, j). y ! i) (candidate_cells g)"
    unfolding sy' by (rule map_cong) (auto simp: meshgrid_def dest: in_range)
  ultimately show "sp = Array2 [map (\<lambda>(i, j). x ! j) (candidate_cells g),
                      map (\<lambda>(i, j). y ! i) (candidate_cells g)]"
    using sp by simp
qed

lemma zip_swapped_cells:
  "zip_swapped (Array2 [map (\<lambda>(i, j). x ! j) cs, map (\<lambda>(i, j). y ! i) cs])
     = Inr (map (\<lambda>(i, j). (y ! i, x ! j)) cs)"
  by (simp add: zip_swapped_def zip_map_map split_def) (simp add: zip_same_conv_map)

lemma estimate_stops_cells:
  assumes "estimate_stops kern series_fit osrm weighted False resolution bw s = (Inr out, s')"
  shows "\<exists>b x y g. boundaries s = Some b
           \<and> linspace (b ! 0) (b ! 1) resolution = Inr x
           \<and> linspace (b ! 2) (b ! 3) resolution = Inr y
           \<and> stop_prob s' = Some g
           \<and> map length g = replicate (length y) (length x)
           \<and> out = map (\<lambda>(i, j). (y ! i, x ! j)) (candidate_cells g)"
proof -
  from estimate_stops_Inr[OF assms] obtain b x y g sp where
    h: "boundaries s = Some b" "linspace (b ! 0) (b ! 1) resolution = Inr x"
       "linspace (b ! 2) (b ! 3) resolution = Inr y" "stop_prob s' = Some g"
       "select_stop_points g (fst (meshgrid x y)) (snd (meshgrid x y)) = Inr sp"
       "finish_stops osrm False sp = Inr out"
    by blast
  have "out = map (\<lambda>(i, j). (y ! i, x ! j)) (candidate_cells g)"
    using h(6) select_stop_points_Inr(2)[OF h(5)] zip_swapped_cells[of x "candidate_cells g" y]
    by (simp add: finish_stops_def)
  then show ?thesis using h select_stop_points_Inr(1)[OF h(5)] by blast
qed

subsection \<open>The worked example, evaluated\<close>

lemma init_three_points: "init (Some three_points) None = Inr est3"
  by code_simp

lemma linspace_example:
  "linspace 0 2 3 = Inr [0, 1, 2]" "linspace 0 4 3 = Inr [0, 2, 4]"
  by code_simp+

lemma meshgrid_example:
  "meshgrid [0, 1, 2] [0, 2, 4]
     = ([[0, 1, 2], [0, 1, 2], [0, 1, 2]], [[0, 0, 0], [2, 2, 2], [4, 4, 4]])"
  by code_simp

lemma fill_stop_prob_example:
  "fill_stop_prob tent series_fit True 1 [[0, 1, 2], [0, 1, 2], [0, 1, 2]] [[0, 0, 0], [2, 2, 2], [4, 4, 4]] est3
     = (Inr (), est3\<lparr>stop_prob := Some surface3\<rparr>)"
  by code_simp

lemma select_stop_points_example:
  "select_stop_points surface3 [[0, 1, 2], [0, 1, 2], [0, 1, 2]] [[0, 0, 0], [2, 2, 2], [4, 4, 4]]
     = Inr (Array2 [[1], [2]])"
  by code_simp

lemma est3_boundaries: "boundaries est3 = Some [0, 2, 0, 4]"
  by (simp add: est3_def)

lemma estimate_stops_example:
  "estimate_stops tent series_fit osrm True False 3 1 est3
     = (Inr [(2, 1)], est3\<lparr>stop_prob := Some surface3\<rparr>)"
  by (simp add: estimate_stops_def attr_def est3_boundaries linspace_example meshgrid_example
        fill_stop_prob_example select_stop_points_example finish_stops_def zip_swapped_def)

subsection \<open>Setters, constructor and the cached surface\<close>

lemma points_setter_Some:
  "ps \<noteq> [] \<Longrightarrow> points_setter (Some ps) s
     = (Inr (), s\<lparr>p_coordinates := Some [map fst ps, map snd ps], points := Some ps,
                    boundaries := Some [amin (map fst ps), amax (map fst ps),
                                        amin (map snd ps), amax (map snd ps)],
                    stop_prob := None\<rparr>)"
  by (simp add: points_setter_def Let_def)

lemma points_setter_Inr:
  assumes "points_setter v s = (Inr u, s')"
  shows "\<exists>ps. v = Some ps \<and> ps \<noteq> []"
  using assms by (auto simp: points_setter_def Let_def split: option.splits if_splits)

lemma init_Inr:
  assumes "init v w = Inr s"
  shows "\<exists>ps. v = Some ps \<and> ps \<noteq> []
           \<and> s = \<lparr>stop_prob = None, points = Some ps,
                   p_coordinates = Some [map fst ps, map snd ps],
                   boundaries = Some [amin (map fst ps), amax (map fst ps),
                                      amin (map snd ps), amax (map snd ps)],
                   weights = w\<rparr>"
proof -
  obtain r s1 where ps: "points_setter v (blank\<lparr>stop_prob := None\<rparr>) = (r, s1)"
    by (cases "points_setter v (blank\<lparr>stop_prob := None\<rparr>)")
  then obtain u where r: "r = Inr u" and s: "s = weights_setter w s1"
    using assms by (auto simp: init_def split: sum.splits)
  from points_setter_Inr[OF ps[unfolded r]] obtain p where p: "v = Some p" "p \<noteq> []" by blast
  show ?thesis
    using ps p s r by (auto simp: points_setter_Some weights_setter_def blank_def)
qed

lemma candidate_cells_in_grid:
  assumes "map length g = replicate n m" "(i, j) \<in> set (candidate_cells g)"
  shows "i < n \<and> j < m"
proof -
  have i: "i < length g" and j: "j < length (g ! i)"
    using assms(2) by (simp_all add: mem_candidate_cells)
  have len: "length g = n" using assms(1) by (metis length_map length_replicate)
  have "length (g ! i) = m" using assms(1) i len by (metis nth_map nth_replicate)
  then show ?thesis using i j len by simp
qed

lemma py_not_many: "2 \<le> length (concat g) \<Longrightarrow> py_not (Some g) = Inl ValueError"
  by (cases "concat g" rule: list.exhaust; cases "tl (concat g)")
     (auto simp: py_not_def split: list.splits)

lemma estimate_stops_surface_size:
  assumes "estimate_stops kern series_fit osrm weighted snap resolution bw s = (Inr out, s')"
  shows "\<exists>g. stop_prob s' = Some g \<and> length (concat g) = nat resolution * nat resolution"
proof -
  from estimate_stops_Inr[OF assms] obtain b x y g sp where
    h: "linspace (b ! 0) (b ! 1) resolution = Inr x"
       "linspace (b ! 2) (b ! 3) resolution = Inr y" "stop_prob s' = Some g"
       "select_stop_points g (fst (meshgrid x y)) (snd (meshgrid x y)) = Inr sp"
    by blast
  have "length (concat g) = sum_list (map length g)" by (simp add: length_concat)
  also have "\<dots> = length y * length x"
    using select_stop_points_Inr(1)[OF h(4)] by (simp add: sum_list_replicate)
  finally show ?thesis using h(3) linspace_length[OF h(1)] linspace_length[OF h(2)] by simp
qed

subsection \<open>C1: a second call with the same arguments\<close>

text \<open>
  C1 says that a second \<^verbatim>\<open>estimate_stops\<close> with the same arguments and no assignment to
  \<^verbatim>\<open>points\<close> or \<^verbatim>\<open>weights\<close> in between returns what the first call returned, from the
  cached surface. The code tests the cache with \<^verbatim>\<open>if not self._stop_prob\<close>. After a
  call that returned with a resolution of at least 2 the cache is an array of
  \<open>resolution * resolution\<close> cells, whose truth value numpy refuses: the second call
  raises \<^verbatim>\<open>ValueError\<close> and returns nothing. Whatever the kernel, the lookup, the flags
  and the state of the first call:
\<close>

theorem second_call_raises:
  assumes "estimate_stops kern series_fit osrm weighted snap resolution bw s = (Inr out, s')"
    and "2 \<le> resolution"
  shows "estimate_stops kern series_fit osrm weighted snap resolution bw s' = (Inl ValueError, s')"
proof -
  from estimate_stops_Inr[OF assms(1)] obtain b x y where
    h: "boundaries s = Some b" "linspace (b ! 0) (b ! 1) resolution = Inr x"
       "linspace (b ! 2) (b ! 3) resolution = Inr y"
       "fill_stop_prob kern series_fit weighted bw (fst (meshgrid x y)) (snd (meshgrid x y)) s = (Inr (), s')"
    by blast
  have b: "boundaries s' = Some b" using fill_stop_prob_frame[OF h(4)] h(1) by simp
  from estimate_stops_surface_size[OF assms(1)] obtain g where
    g: "stop_prob s' = Some g" "length (concat g) = nat resolution * nat resolution" by blast
  have "2 * 2 \<le> nat resolution * nat resolution"
    using assms(2) by (intro mult_mono) simp_all
  then have "py_not (stop_prob s') = Inl ValueError"
    using g by (simp add: py_not_many)
  then have "fill_stop_prob kern series_fit weighted bw xx yy s' = (Inl ValueError, s')" for xx yy
    by (simp add: fill_stop_prob_def)
  then show ?thesis
    using h(2,3) by (simp add: estimate_stops_def attr_def b split: prod.splits)
qed

theorem second_call_raises_witness:
  "estimate_stops tent no_series_fit (\<lambda>_ _. None) True False 3 1 est3
     = (Inr [(2, 1)], est3\<lparr>stop_prob := Some surface3\<rparr>)
   \<and> (2::int) \<le> 3
   \<and> estimate_stops tent no_series_fit (\<lambda>_ _. None) True False 3 1 (est3\<lparr>stop_prob := Some surface3\<rparr>)
     = (Inl ValueError, est3\<lparr>stop_prob := Some surface3\<rparr>)"
  using second_call_raises[OF estimate_stops_example[of no_series_fit "\<lambda>_ _. None"]] estimate_stops_example[of no_series_fit "\<lambda>_ _. None"]
  by simp

subsection \<open>C2: the emitted cells are the strict maxima along both axes\<close>

text \<open>
  C2: a grid cell is emitted by \<^verbatim>\<open>estimate_stops\<close> as a candidate exactly when its value
  is strictly greater than both of its neighbours along axis 0 and, independently, along
  axis 1. When \<^verbatim>\<open>estimate_stops\<close> returns (without road snapping), its output lists the
  coordinates of the cells \<open>candidate_cells g\<close> of the cached surface \<open>g\<close>, one entry per cell
  in row-major order, and a cell \<open>(i, j)\<close> is among them if and only if it has a neighbour on
  each side along both axes and exceeds all four; so no cell of the first or last row or
  column, and no cell equal to a neighbour, is ever emitted.
\<close>

theorem candidates_are_strict_maxima:
  assumes "estimate_stops kern series_fit osrm weighted False resolution bw s = (Inr out, s')"
  shows "\<exists>b x y g. boundaries s = Some b
           \<and> linspace (b ! 0) (b ! 1) resolution = Inr x
           \<and> linspace (b ! 2) (b ! 3) resolution = Inr y
           \<and> stop_prob s' = Some g
           \<and> out = map (\<lambda>(i, j). (y ! i, x ! j)) (candidate_cells g)
           \<and> (\<forall>i j. (i, j) \<in> set (candidate_cells g) \<longleftrightarrow>
                  0 < i \<and> i + 1 < length g \<and> 0 < j \<and> j + 1 < length (g ! i)
                  \<and> g ! (i - 1) ! j < g ! i ! j \<and> g ! (i + 1) ! j < g ! i ! j
                  \<and> g ! i ! (j - 1) < g ! i ! j \<and> g ! i ! (j + 1) < g ! i ! j)"
proof -
  from estimate_stops_cells[OF assms] obtain b x y g where
    h: "boundaries s = Some b" "linspace (b ! 0) (b ! 1) resolution = Inr x"
       "linspace (b ! 2) (b ! 3) resolution = Inr y" "stop_prob s' = Some g"
       "out = map (\<lambda>(i, j). (y ! i, x ! j)) (candidate_cells g)"
    by blast
  have "(i, j) \<in> set (candidate_cells g) \<longleftrightarrow>
          0 < i \<and> i + 1 < length g \<and> 0 < j \<and> j + 1 < length (g ! i)
          \<and> g ! (i - 1) ! j < g ! i ! j \<and> g ! (i + 1) ! j < g ! i ! j
          \<and> g ! i ! (j - 1) < g ! i ! j \<and> g ! i ! (j + 1) < g ! i ! j" for i j
  proof (cases "i < length g \<and> j < length (g ! i)")
    case True
    then show ?thesis
      by (simp add: mem_candidate_cells boolrelextrema0_nth boolrelextrema1_nth) blast
  next
    case False
    then show ?thesis by (auto simp: mem_candidate_cells)
  qed
  then show ?thesis using h by blast
qed

theorem candidates_are_strict_maxima_witness:
  "estimate_stops tent no_series_fit (\<lambda>_ _. None) True False 3 1 est3
     = (Inr [(2, 1)], est3\<lparr>stop_prob := Some surface3\<rparr>)
   \<and> (\<exists>b x y g. boundaries est3 = Some b
           \<and> linspace (b ! 0) (b ! 1) 3 = Inr x
           \<and> linspace (b ! 2) (b ! 3) 3 = Inr y
           \<and> stop_prob (est3\<lparr>stop_prob := Some surface3\<rparr>) = Some g
           \<and> [(2, 1)] = map (\<lambda>(i, j). (y ! i, x ! j)) (candidate_cells g)
           \<and> (\<forall>i j. (i, j) \<in> set (candidate_cells g) \<longleftrightarrow>
                  0 < i \<and> i + 1 < length g \<and> 0 < j \<and> j + 1 < length (g ! i)
                  \<and> g ! (i - 1) ! j < g ! i ! j \<and> g ! (i + 1) ! j < g ! i ! j
                  \<and> g ! i ! (j - 1) < g ! i ! j \<and> g ! i ! (j + 1) < g ! i ! j))"
proof -
  note run = estimate_stops_example[of no_series_fit "\<lambda>_ _. None"]
  show ?thesis by (rule conjI[OF run candidates_are_strict_maxima[OF run]])
qed

subsection \<open>C5: the returned pairs are (y, x)\<close>

text \<open>
  C5 as stated fails on the code: with \<^verbatim>\<open>snap_to_street=True\<close> and a lookup that
  succeeds, the returned pair holds the coordinates that the routing service answered, in
  swapped order, and not the \<open>y\<close> and \<open>x\<close> of the candidate cell. The only candidate cell
  of the example is \<open>(1, 1)\<close>, with \<open>y = 2\<close> and \<open>x = 1\<close>, and the call returns \<open>(22, 11)\<close>.
\<close>

theorem snapped_pairs_counterexample:
  "estimate_stops tent no_series_fit shifting_osrm True True 3 1 est3
     = (Inr [(22, 11)], est3\<lparr>stop_prob := Some surface3\<rparr>)
   \<and> candidate_cells surface3 = [(1, 1)]
   \<and> (snd (meshgrid [0, 1, 2] [0, 2, 4]) ! 1 ! 1, fst (meshgrid [0, 1, 2] [0, 2, 4]) ! 1 ! 1)
       = (2, 1)"
proof -
  have f: "finish_stops shifting_osrm True (Array2 [[1], [2]]) = Inr [(22, 11)]"
    by (simp add: finish_stops_def transpose2_def apply_along_axis_def nearest_street_def
          shifting_osrm_def zip_swapped_def)
  have r: "estimate_stops tent no_series_fit shifting_osrm True True 3 1 est3
             = (Inr [(22, 11)], est3\<lparr>stop_prob := Some surface3\<rparr>)"
    by (simp add: estimate_stops_def attr_def est3_boundaries linspace_example meshgrid_example
          fill_stop_prob_example select_stop_points_example f)
  have c: "candidate_cells surface3 = [(1, 1)]" by code_simp
  have m: "(snd (meshgrid [0, 1, 2] [0, 2, 4]) ! 1 ! 1, fst (meshgrid [0, 1, 2] [0, 2, 4]) ! 1 ! 1)
       = (2 :: real, 1 :: real)"
    by (simp add: meshgrid_example)
  show ?thesis using r c m by simp
qed

text \<open>
  C5, amended: without road snapping (\<^verbatim>\<open>snap_to_street=False\<close>), each element of the
  sequence that \<^verbatim>\<open>estimate_stops\<close> returns is the pair \<open>(y, x)\<close> of a candidate cell, where
  \<open>x\<close> and \<open>y\<close> are the cell's entries in the meshgrid arrays \<^verbatim>\<open>xx\<close> and \<^verbatim>\<open>yy\<close>: the
  first component is the cell's \<^verbatim>\<open>yy\<close> value, the second its \<^verbatim>\<open>xx\<close> value.
\<close>

theorem returned_pairs_are_y_x:
  assumes "estimate_stops kern series_fit osrm weighted False resolution bw s = (Inr out, s')"
  shows "\<exists>b x y g. boundaries s = Some b
           \<and> linspace (b ! 0) (b ! 1) resolution = Inr x
           \<and> linspace (b ! 2) (b ! 3) resolution = Inr y
           \<and> stop_prob s' = Some g
           \<and> out = map (\<lambda>(i, j). (snd (meshgrid x y) ! i ! j, fst (meshgrid x y) ! i ! j))
                        (candidate_cells g)"
proof -
  from estimate_stops_cells[OF assms] obtain b x y g where
    h: "boundaries s = Some b" "linspace (b ! 0) (b ! 1) resolution = Inr x"
       "linspace (b ! 2) (b ! 3) resolution = Inr y" "stop_prob s' = Some g"
       "map length g = replicate (length y) (length x)"
       "out = map (\<lambda>(i, j). (y ! i, x ! j)) (candidate_cells g)"
    by blast
  have "map (\<lambda>(i, j). (y ! i, x ! j)) (candidate_cells g)
        = map (\<lambda>(i, j). (snd (meshgrid x y) ! i ! j, fst (meshgrid x y) ! i ! j))
              (candidate_cells g)"
    by (rule map_cong) (auto simp: meshgrid_def dest: candidate_cells_in_grid[OF h(5)])
  then show ?thesis using h by auto
qed

theorem returned_pairs_are_y_x_witness:
  "estimate_stops tent no_series_fit (\<lambda>_ _. None) True False 3 1 est3
     = (Inr [(2, 1)], est3\<lparr>stop_prob := Some surface3\<rparr>)
   \<and> (\<exists>b x y g. boundaries est3 = Some b
           \<and> linspace (b ! 0) (b ! 1) 3 = Inr x
           \<and> linspace (b ! 2) (b ! 3) 3 = Inr y
           \<and> stop_prob (est3\<lparr>stop_prob := Some surface3\<rparr>) = Some g
           \<and> [(2, 1)] = map (\<lambda>(i, j). (snd (meshgrid x y) ! i ! j, fst (meshgrid x y) ! i ! j))
                             (candidate_cells g))"
proof -
  note run = estimate_stops_example[of no_series_fit "\<lambda>_ _. None"]
  show ?thesis by (rule conjI[OF run returned_pairs_are_y_x[OF run]])
qed

subsection \<open>C9: the returned coordinates lie within the boundaries\<close>

text \<open>
  C9: for an estimator built from a point set, every pair that \<^verbatim>\<open>estimate_stops\<close> returns
  (without road snapping) lies within the boundaries of the point set, ends included:
  its x (the second component) between the least and the greatest x of the points, its y
  (the first component) between the least and the greatest y. This holds for every
  kernel, for either value of \<^verbatim>\<open>weighted\<close> and whatever the weights, so in particular for
  uniform weights; the real-number model has no rounding in \<^verbatim>\<open>linspace\<close>.
\<close>

theorem stops_within_boundaries:
  assumes "init (Some ps) w = Inr s"
    and "estimate_stops kern series_fit osrm weighted False resolution bw s = (Inr out, s')"
    and "(a, c) \<in> set out"
  shows "boundaries s = Some [Min (fst ` set ps), Max (fst ` set ps),
                              Min (snd ` set ps), Max (snd ` set ps)]
         \<and> Min (fst ` set ps) \<le> c \<and> c \<le> Max (fst ` set ps)
         \<and> Min (snd ` set ps) \<le> a \<and> a \<le> Max (snd ` set ps)"
proof -
  from init_Inr[OF assms(1)] have ne: "ps \<noteq> []"
    and bs: "boundaries s = Some [amin (map fst ps), amax (map fst ps),
                                  amin (map snd ps), amax (map snd ps)]"
    by auto
  have mm: "amin (map fst ps) = Min (fst ` set ps)" "amax (map fst ps) = Max (fst ` set ps)"
           "amin (map snd ps) = Min (snd ` set ps)" "amax (map snd ps) = Max (snd ` set ps)"
    using ne by (simp_all add: amin_Min amax_Max)
  have le: "Min (fst ` set ps) \<le> Max (fst ` set ps)" "Min (snd ` set ps) \<le> Max (snd ` set ps)"
    using ne by (simp_all add: Min_le_iff)
  from estimate_stops_cells[OF assms(2)] obtain b x y g where
    h: "boundaries s = Some b" "linspace (b ! 0) (b ! 1) resolution = Inr x"
       "linspace (b ! 2) (b ! 3) resolution = Inr y"
       "map length g = replicate (length y) (length x)"
       "out = map (\<lambda>(i, j). (y ! i, x ! j)) (candidate_cells g)"
    by blast
  have b: "b = [Min (fst ` set ps), Max (fst ` set ps), Min (snd ` set ps), Max (snd ` set ps)]"
    using h(1) bs mm by simp
  have lx: "linspace (Min (fst ` set ps)) (Max (fst ` set ps)) resolution = Inr x"
    and ly: "linspace (Min (snd ` set ps)) (Max (snd ` set ps)) resolution = Inr y"
    using h(2,3) unfolding b by simp_all
  obtain i j where ij: "(i, j) \<in> set (candidate_cells g)" "a = y ! i" "c = x ! j"
    using assms(3) h(5) by auto
  from candidate_cells_in_grid[OF h(4) ij(1)] have "a \<in> set y" "c \<in> set x"
    using ij by simp_all
  then show ?thesis
    using linspace_bounds[OF lx le(1)] linspace_bounds[OF ly le(2)] h(1) b by simp
qed

theorem stops_within_boundaries_witness:
  "init (Some three_points) None = Inr est3
   \<and> estimate_stops tent no_series_fit (\<lambda>_ _. None) True False 3 1 est3
       = (Inr [(2, 1)], est3\<lparr>stop_prob := Some surface3\<rparr>)
   \<and> (2, 1) \<in> set [(2 :: real, 1 :: real)]
   \<and> boundaries est3 = Some [Min (fst ` set three_points), Max (fst ` set three_points),
                              Min (snd ` set three_points), Max (snd ` set three_points)]
   \<and> Min (fst ` set three_points) \<le> 1 \<and> 1 \<le> Max (fst ` set three_points)
   \<and> Min (snd ` set three_points) \<le> 2 \<and> 2 \<le> Max (snd ` set three_points)"
proof -
  note run = estimate_stops_example[of no_series_fit "\<lambda>_ _. None"]
  have m: "(2, 1) \<in> set [(2::real, 1::real)]" by simp
  show ?thesis
    by (rule conjI[OF init_three_points
          conjI[OF run conjI[OF m stops_within_boundaries[OF init_three_points run m]]]])
qed

subsection \<open>C6: the setters invalidate the cache\<close>

text \<open>
  C6 as stated fails on the code: the assignment of an empty series to \<^verbatim>\<open>points\<close>
  replaces the coordinates and the points on lines 37 and 38 and raises \<^verbatim>\<open>ValueError\<close> on
  line 39, so that line 41 is never reached. The estimator then holds the new (empty)
  points with the surface and the boundaries of the old ones.
\<close>

theorem empty_assignment_keeps_cache_counterexample:
  "points_setter (Some []) (est3\<lparr>stop_prob := Some surface3\<rparr>) = (Inl ValueError, est3_emptied)
   \<and> points est3_emptied = Some [] \<and> points est3 = Some three_points
   \<and> stop_prob est3_emptied = Some surface3 \<and> boundaries est3_emptied = boundaries est3"
  by (simp add: points_setter_def est3_def est3_emptied_def three_points_def)

text \<open>
  C6, amended: every assignment to \<^verbatim>\<open>points\<close> that completes and every assignment to
  \<^verbatim>\<open>weights\<close> leaves \<^verbatim>\<open>_stop_prob\<close> at \<^verbatim>\<open>None\<close>, and an assignment to \<^verbatim>\<open>points\<close>
  that completes recomputes the boundaries as the least x, the greatest x, the least y
  and the greatest y of the new points, in this order. (The assignment to \<^verbatim>\<open>weights\<close>
  cannot raise.)
\<close>

theorem setters_invalidate_cache:
  "(points_setter v s = (Inr (), s') \<longrightarrow>
      stop_prob s' = None
      \<and> (\<exists>ps. v = Some ps \<and> points s' = Some ps
            \<and> boundaries s' = Some [Min (fst ` set ps), Max (fst ` set ps),
                                     Min (snd ` set ps), Max (snd ` set ps)]))
   \<and> stop_prob (weights_setter w s) = None
   \<and> weights (weights_setter w s) = w
   \<and> boundaries (weights_setter w s) = boundaries s"
proof (intro conjI impI)
  assume a: "points_setter v s = (Inr (), s')"
  from points_setter_Inr[OF a] obtain ps where ps: "v = Some ps" "ps \<noteq> []" by blast
  have s': "s' = s\<lparr>p_coordinates := Some [map fst ps, map snd ps], points := Some ps,
                    boundaries := Some [amin (map fst ps), amax (map fst ps),
                                        amin (map snd ps), amax (map snd ps)],
                    stop_prob := None\<rparr>"
    using a ps by (simp add: points_setter_Some)
  show "stop_prob s' = None" by (simp add: s')
  have "boundaries s' = Some [Min (fst ` set ps), Max (fst ` set ps),
                              Min (snd ` set ps), Max (snd ` set ps)]"
    using ps(2) by (simp add: s' amin_Min amax_Max)
  then show "\<exists>ps. v = Some ps \<and> points s' = Some ps
            \<and> boundaries s' = Some [Min (fst ` set ps), Max (fst ` set ps),
                                     Min (snd ` set ps), Max (snd ` set ps)]"
    using ps(1) by (simp add: s')
qed (simp_all add: weights_setter_def)

lemma points_setter_one_point:
  "points_setter (Some [(5, 6)]) (est3\<lparr>stop_prob := Some surface3\<rparr>) = (Inr (), est1)"
  by (simp add: points_setter_Some est1_def est3_def amin_def amax_def)

theorem setters_invalidate_cache_witness:
  "points_setter (Some [(5, 6)]) (est3\<lparr>stop_prob := Some surface3\<rparr>) = (Inr (), est1)
   \<and> stop_prob est1 = None
   \<and> (\<exists>ps. Some [(5, 6)] = Some ps \<and> points est1 = Some ps
         \<and> boundaries est1 = Some [Min (fst ` set ps), Max (fst ` set ps),
                                    Min (snd ` set ps), Max (snd ` set ps)])"
  using setters_invalidate_cache[of "Some [(5, 6)]" "est3\<lparr>stop_prob := Some surface3\<rparr>" est1]
        points_setter_one_point
  by blast

subsection \<open>C10: no estimator without points\<close>

text \<open>
  C10: constructing an \<^verbatim>\<open>Estimator\<close> with the default \<^verbatim>\<open>input_points=None\<close> raises, from
  the points setter (\<^verbatim>\<open>None\<close> has no attribute \<^verbatim>\<open>geometry\<close>), and every instance whose
  construction finishes has its points, its coordinates and its boundaries set.
\<close>

theorem no_pointless_estimator:
  "init None w = Inl AttributeError
   \<and> fst (points_setter None (blank\<lparr>stop_prob := None\<rparr>)) = Inl AttributeError
   \<and> (init v w = Inr s \<longrightarrow>
        v \<noteq> None \<and> points s = v \<and> p_coordinates s \<noteq> None \<and> boundaries s \<noteq> None)"
proof (intro conjI impI)
  assume "init v w = Inr s"
  from init_Inr[OF this] show "v \<noteq> None" "points s = v" "p_coordinates s \<noteq> None"
    "boundaries s \<noteq> None"
    by auto
qed (simp_all add: init_def points_setter_def)

theorem no_pointless_estimator_witness:
  "init (Some three_points) None = Inr est3
   \<and> Some three_points \<noteq> None \<and> points est3 = Some three_points
   \<and> p_coordinates est3 \<noteq> None \<and> boundaries est3 \<noteq> None"
  using no_pointless_estimator[of None "Some three_points" est3] init_three_points
  by blast

subsection \<open>C7: distances to the closest route\<close>

lemma route_loop_map:
  "routes \<noteq> [] \<Longrightarrow>
     route_loop distance routes ps acc
       = Inr (acc @ map (\<lambda>p. amin (map (distance p) routes)) ps)"
  by (induction ps arbitrary: acc) simp_all

lemma route_loop_no_routes:
  "ps \<noteq> [] \<Longrightarrow> route_loop distance [] ps acc = Inl ValueError"
  by (cases ps) simp_all

text \<open>
  C7 as stated fails on the code: with no routes, \<^verbatim>\<open>min\<close> of the empty list of distances
  raises Python's \<^verbatim>\<open>ValueError\<close>; the module has no \<^verbatim>\<open>InvalidInputError\<close>.
\<close>

theorem route_dist_empty_routes_counterexample:
  "route_dist (\<lambda>p r. 0) ([] :: unit list) est3 \<noteq> Inl InvalidInputError"
  by (simp add: route_dist_def attr_def est3_def)

text \<open>
  C7, amended: \<^verbatim>\<open>route_dist\<close> returns exactly one distance per point of the point set,
  each the least of that point's distances to the routes and, the distance to a route
  being non-negative, itself non-negative; when the routes are empty and the point set is
  not, it raises \<^verbatim>\<open>ValueError\<close>.
\<close>

theorem route_dist_min_per_point:
  assumes "points s = Some ps" and "\<forall>p r. 0 \<le> distance p r"
  shows "(routes \<noteq> [] \<longrightarrow>
            (\<exists>ds. route_dist distance routes s = Inr ds \<and> length ds = length ps
                  \<and> (\<forall>k < length ps. ds ! k = Min (distance (ps ! k) ` set routes)
                                       \<and> 0 \<le> ds ! k)))
         \<and> (routes = [] \<and> ps \<noteq> [] \<longrightarrow> route_dist distance routes s = Inl ValueError)"
proof (intro conjI impI)
  assume ne: "routes \<noteq> []"
  let ?ds = "map (\<lambda>p. amin (map (distance p) routes)) ps"
  have r: "route_dist distance routes s = Inr ?ds"
    using assms(1) ne by (simp add: route_dist_def attr_def route_loop_map)
  have "length ?ds = length ps" by simp
  moreover have "?ds ! k = Min (distance (ps ! k) ` set routes) \<and> 0 \<le> ?ds ! k"
    if "k < length ps" for k
  proof -
    have m: "?ds ! k = Min (distance (ps ! k) ` set routes)"
      using that ne by (simp add: amin_Min)
    have "Min (distance (ps ! k) ` set routes) \<in> distance (ps ! k) ` set routes"
      using ne by (intro Min_in) simp_all
    then obtain r where "Min (distance (ps ! k) ` set routes) = distance (ps ! k) r" by auto
    then show ?thesis using m assms(2)[rule_format, of "ps ! k" r] by simp
  qed
  ultimately show "\<exists>ds. route_dist distance routes s = Inr ds \<and> length ds = length ps
                  \<and> (\<forall>k < length ps. ds ! k = Min (distance (ps ! k) ` set routes)
                                       \<and> 0 \<le> ds ! k)"
    using r by blast
next
  assume "routes = [] \<and> ps \<noteq> []"
  then show "route_dist distance routes s = Inl ValueError"
    using assms(1) by (simp add: route_dist_def attr_def route_loop_no_routes)
qed

theorem route_dist_min_per_point_witness:
  "points est3 = Some three_points \<and> (\<forall>p r. 0 \<le> manhattan p r)
   \<and> route_dist manhattan [(0, 1), (2, 2)] est3 = Inr [1, 2, 1]
   \<and> route_dist manhattan [] est3 = Inl ValueError"
proof -
  have p: "points est3 = Some three_points" by (simp add: est3_def three_points_def)
  have d: "\<forall>p r. 0 \<le> manhattan p r" by (simp add: manhattan_def)
  note t = route_dist_min_per_point[OF p d]
  have e: "route_dist manhattan [] est3 = Inl ValueError"
    using t[of "[]"] by (simp add: three_points_def)
  have "route_dist manhattan [(0, 1), (2, 2)] est3 = Inr [1, 2, 1]"
    by (simp add: route_dist_def attr_def est3_def manhattan_def amin_def)
  then show ?thesis using p d e by simp
qed

subsection \<open>C4: too few points, weights of the wrong length\<close>

text \<open>
  C4 as stated fails on the code: the points setter has no check of the number of points
  and accepts a single point.
\<close>

theorem points_setter_one_point_counterexample:
  "fst (points_setter (Some [(5, 6)]) est3) = Inr ()"
  by (simp add: points_setter_Some)

lemma linspace_Inr: "0 \<le> n \<Longrightarrow> \<exists>xs. linspace a b n = Inr xs"
  by (simp add: linspace_def)

lemma fit_error_surfaces:
  assumes "boundaries s = Some b" "0 \<le> resolution" "py_not (stop_prob s) = Inr True"
    "fit kern series_fit weighted bw s = Inl e"
  shows "estimate_stops kern series_fit osrm weighted snap resolution bw s = (Inl e, s)"
proof -
  have f: "fill_stop_prob kern series_fit weighted bw xx yy s = (Inl e, s)" for xx yy
    using assms(3,4) by (simp add: fill_stop_prob_def)
  obtain x y where "linspace (b ! 0) (b ! 1) resolution = Inr x"
    "linspace (b ! 2) (b ! 3) resolution = Inr y"
    using linspace_Inr[OF assms(2)] by metis
  then show ?thesis
    using assms(1) by (simp add: estimate_stops_def attr_def f split: prod.splits)
qed

text \<open>
  C4, amended: the points setter raises only when it is given no point at all (a
  \<^verbatim>\<open>ValueError\<close>) and accepts one point or more; density fitting raises
  \<^verbatim>\<open>InvalidInputError\<close> when given fewer than 2 points or a weight vector whose length
  differs from the number of points; \<^verbatim>\<open>estimate_stops\<close> hands an error of the fit to its
  caller, unchanged and without touching the estimator.
\<close>

theorem input_errors_surface:
  "(ps \<noteq> [] \<longrightarrow> fst (points_setter (Some ps) s) = Inr ())
   \<and> fst (points_setter (Some []) s) = Inl ValueError
   \<and> (length xs < 2 \<or> (\<exists>v. ws = Some v \<and> length v \<noteq> length xs) \<longrightarrow>
        gaussian_kde kern [xs, ys] ws bw = Inl InvalidInputError)
   \<and> (boundaries s \<noteq> None \<and> 0 \<le> resolution \<and> py_not (stop_prob s) = Inr True
        \<and> fit kern series_fit weighted bw s = Inl e \<longrightarrow>
        estimate_stops kern series_fit osrm weighted snap resolution bw s = (Inl e, s))"
proof (intro conjI impI)
  assume "ps \<noteq> []"
  then show "fst (points_setter (Some ps) s) = Inr ()" by (simp add: points_setter_Some)
next
  show "fst (points_setter (Some []) s) = Inl ValueError" by (simp add: points_setter_def)
next
  assume "length xs < 2 \<or> (\<exists>v. ws = Some v \<and> length v \<noteq> length xs)"
  then show "gaussian_kde kern [xs, ys] ws bw = Inl InvalidInputError"
    by (auto simp: gaussian_kde_def Let_def)
next
  assume a: "boundaries s \<noteq> None \<and> 0 \<le> resolution \<and> py_not (stop_prob s) = Inr True
        \<and> fit kern series_fit weighted bw s = Inl e"
  then obtain b where "boundaries s = Some b" by auto
  from fit_error_surfaces[OF this] a
  show "estimate_stops kern series_fit osrm weighted snap resolution bw s = (Inl e, s)" by blast
qed

theorem input_errors_surface_witness:
  "fst (points_setter (Some [(5, 6)]) est3) = Inr ()
   \<and> gaussian_kde tent [[5], [6]] None 1 = Inl InvalidInputError
   \<and> boundaries est1 \<noteq> None \<and> (0 :: int) \<le> 3 \<and> py_not (stop_prob est1) = Inr True
   \<and> fit tent no_series_fit True 1 est1 = Inl InvalidInputError
   \<and> estimate_stops tent no_series_fit (\<lambda>_ _. None) True False 3 1 est1 = (Inl InvalidInputError, est1)"
proof -
  note t = input_errors_surface[where ps = "[(5, 6)]" and s = est3 and xs = "[5]" and ys = "[6]"
      and ws = None and kern = tent and bw = 1]
  note u = input_errors_surface[where s = est1 and xs = "[5]" and ys = "[6]"
      and ws = None and kern = tent and bw = 1 and resolution = 3 and weighted = True
      and e = InvalidInputError and series_fit = no_series_fit and osrm = "\<lambda>_ _. None" and snap = False]
  have k: "gaussian_kde tent [[5], [6]] None 1 = Inl InvalidInputError"
    using t by simp
  have h: "boundaries est1 \<noteq> None" "py_not (stop_prob est1) = Inr True"
    "fit tent no_series_fit True 1 est1 = Inl InvalidInputError"
    using k by (simp_all add: est1_def py_not_def fit_def attr_def)
  have "estimate_stops tent no_series_fit (\<lambda>_ _. None) True False 3 1 est1 = (Inl InvalidInputError, est1)"
    using u h by simp
  then show ?thesis using t k h by simp
qed

subsection \<open>C3: the unweighted fit\<close>

lemma fill_stop_prob_ones:
  "fill_stop_prob tent series_fit True 1 [[0, 1, 2], [0, 1, 2], [0, 1, 2]]
       [[0, 0, 0], [2, 2, 2], [4, 4, 4]] (weights_setter (Some [1, 1, 1]) est3)
     = (Inr (), weights_setter (Some [1, 1, 1]) est3\<lparr>stop_prob := Some surface3\<rparr>)"
  by code_simp

lemma estimate_stops_ones:
  "estimate_stops tent series_fit osrm True False 3 1 (weights_setter (Some [1, 1, 1]) est3)
     = (Inr [(2, 1)], weights_setter (Some [1, 1, 1]) est3\<lparr>stop_prob := Some surface3\<rparr>)"
proof -
  have b: "boundaries (weights_setter (Some [1, 1, 1]) est3) = Some [0, 2, 0, 4]"
    by (simp add: weights_setter_def est3_def)
  show ?thesis
    by (simp add: estimate_stops_def attr_def b linspace_example meshgrid_example
          fill_stop_prob_ones select_stop_points_example finish_stops_def zip_swapped_def)
qed

text \<open>
  C3 says that \<^verbatim>\<open>weighted=False\<close> gives what the weighted estimation gives with every
  weight equal to 1 over the same coordinates. The weighted branch (line 81) fits the
  coordinate array \<^verbatim>\<open>self.__p_coordinates\<close>; the other branch (line 83) hands
  \<^verbatim>\<open>self.points\<close>, the series of geometries, to the fit. What the call returns is then
  whatever the fit makes of a series of geometry objects: whenever that fit raises on the
  three example points, the unweighted call raises the same error and leaves the estimator
  untouched, while the call with the weights 1, 1, 1 returns the candidate \<open>(2, 1)\<close>.
\<close>

theorem unweighted_fit_takes_geometries:
  assumes "series_fit three_points 1 = Inl e"
  shows "estimate_stops tent series_fit osrm False False 3 1 est3 = (Inl e, est3)
         \<and> estimate_stops tent series_fit osrm True False 3 1 (weights_setter (Some [1, 1, 1]) est3)
             = (Inr [(2, 1)], weights_setter (Some [1, 1, 1]) est3\<lparr>stop_prob := Some surface3\<rparr>)"
proof -
  have f: "fit tent series_fit False 1 est3 = Inl e"
    using assms by (simp add: fit_def attr_def est3_def three_points_def)
  have n: "py_not (stop_prob est3) = Inr True" by (simp add: est3_def py_not_def)
  have "estimate_stops tent series_fit osrm False False 3 1 est3 = (Inl e, est3)"
    by (rule fit_error_surfaces[OF est3_boundaries _ n f]) simp
  then show ?thesis by (simp add: estimate_stops_ones)
qed

theorem unweighted_fit_takes_geometries_witness:
  "no_series_fit three_points 1 = Inl TypeError
   \<and> estimate_stops tent no_series_fit (\<lambda>_ _. None) False False 3 1 est3 = (Inl TypeError, est3)
   \<and> estimate_stops tent no_series_fit (\<lambda>_ _. None) True False 3 1
         (weights_setter (Some [1, 1, 1]) est3)
       = (Inr [(2, 1)], weights_setter (Some [1, 1, 1]) est3\<lparr>stop_prob := Some surface3\<rparr>)"
proof -
  have h: "no_series_fit three_points 1 = Inl TypeError" by (simp add: no_series_fit_def)
  show ?thesis
    by (rule conjI[OF h unweighted_fit_takes_geometries
          [where series_fit = no_series_fit and e = TypeError and osrm = "\<lambda>_ _. None", OF h]])
qed

subsection \<open>C8: a failed road-snapping lookup\<close>

lemma first_lookup_fails:
  assumes "transpose2 sp = Array2 (r # rest)" "osrm (r ! 0) (r ! 1) = None"
  shows "\<exists>e. finish_stops osrm True sp = Inl e"
  using assms
  by (auto simp: finish_stops_def apply_along_axis_def nearest_street_def transpose2_def
        zip_swapped_def)

text \<open>
  C8 says that a failed lookup puts the sentinel 0 in the place of its point and that
  \<^verbatim>\<open>estimate_stops\<close> goes on and never raises because of it. \<^verbatim>\<open>nearest_street\<close> does
  return 0 when the lookup fails, but the caller expects a coordinate pair: on the example,
  whose only candidate is looked up without success, \<^verbatim>\<open>apply_along_axis\<close> yields the
  one-element array \<open>[0]\<close> and \<^verbatim>\<open>point_list[1]\<close> raises \<^verbatim>\<open>IndexError\<close>.
\<close>

theorem failed_lookup_raises:
  "estimate_stops tent no_series_fit (\<lambda>_ _. None) True True 3 1 est3
     = (Inl IndexError, est3\<lparr>stop_prob := Some surface3\<rparr>)"
proof -
  have "finish_stops (\<lambda>_ _. None) True (Array2 [[1], [2]]) = Inl IndexError"
    by (simp add: finish_stops_def transpose2_def apply_along_axis_def nearest_street_def
          zip_swapped_def)
  then show ?thesis
    by (simp add: estimate_stops_def attr_def est3_boundaries linspace_example meshgrid_example
          fill_stop_prob_example select_stop_points_example)
qed

end
